theory Spec2Isabelle
  imports Main "HOL-Library.Word"
begin

unbundle bit_operations_syntax

section \<open>The aligned allocator of memalign.c\<close>

text \<open>
  The machine model is the LP64 host the example program is written for: \<open>size_t\<close> and
  \<open>uintptr_t\<close> are 64-bit unsigned integers, whose arithmetic wraps around;
  \<open>uint32_t\<close> and \<open>uint16_t\<close> have their fixed widths. A pointer is its address, and
  the null pointer is the address 0.
\<close>

type_synonym size_t = "64 word"
type_synonym uintptr_t = "64 word"
type_synonym uint32_t = "32 word"
type_synonym uint8_t = "8 word"

text \<open>\<open>typedef uint16_t offset_t;\<close> and \<open>#define PTR_OFFSET_SZ sizeof(offset_t)\<close>\<close>

type_synonym offset_t = "16 word"

definition PTR_OFFSET_SZ :: size_t where
  "PTR_OFFSET_SZ = 2"

text \<open>\<open>#define align_up(num, align) (((num) + ((align) - 1)) & ~((align) - 1))\<close>\<close>

definition align_up :: "uintptr_t \<Rightarrow> size_t \<Rightarrow> uintptr_t" where
  "align_up num align = (num + (align - 1)) AND NOT (align - 1)"

subsection \<open>Memory and the underlying allocator\<close>

text \<open>
  Memory is a flat store of bytes: every address can be read and written, also where C
  leaves the access undefined, and address arithmetic wraps around. The program state
  holds the memory and, for the two calls into the C library, the list of sizes passed
  to \<open>malloc\<close> and the list of addresses passed to \<open>free\<close>, in call order.
\<close>

record heap =
  mem :: "uintptr_t \<Rightarrow> uint8_t"
  malloc_calls :: "size_t list"
  free_calls :: "uintptr_t list"

text \<open>
  An \<open>offset_t\<close> object occupies two bytes, the low byte at the lower address. The
  header is written and read back through the same pointer type, so nothing below
  depends on the byte order.
\<close>

definition store_offset :: "(uintptr_t \<Rightarrow> uint8_t) \<Rightarrow> uintptr_t \<Rightarrow> offset_t \<Rightarrow> (uintptr_t \<Rightarrow> uint8_t)" where
  "store_offset m a v = (m(a := ucast v))(a + 1 := ucast (drop_bit 8 v))"

definition load_offset :: "(uintptr_t \<Rightarrow> uint8_t) \<Rightarrow> uintptr_t \<Rightarrow> offset_t" where
  "load_offset m a = ucast (m a) OR push_bit 8 (ucast (m (a + 1)))"

text \<open>
  The underlying allocator is a parameter \<open>alloc\<close>: the address \<open>malloc\<close> answers to a
  request of \<open>n\<close> bytes, 0 when it fails. No alignment of its answers is assumed.
\<close>

definition malloc :: "(size_t \<Rightarrow> uintptr_t) \<Rightarrow> size_t \<Rightarrow> heap \<Rightarrow> uintptr_t \<times> heap" where
  "malloc alloc n h = (alloc n, h\<lparr>malloc_calls := malloc_calls h @ [n]\<rparr>)"

definition free :: "uintptr_t \<Rightarrow> heap \<Rightarrow> heap" where
  "free p h = h\<lparr>free_calls := free_calls h @ [p]\<rparr>"

subsection \<open>aligned\_malloc and aligned\_free\<close>

text \<open>
  A failed \<open>assert\<close> aborts the program: the outcome is the error together with the state
  at the abort, which shows what had been done before it. The flag \<open>ndebug\<close> is the build
  configuration: with \<open>NDEBUG\<close> defined the assertions are compiled out.
\<close>

datatype error = AssertionFailed

text \<open>The condition of \<open>assert((align & (align - 1)) == 0)\<close>.\<close>

definition align_assertion :: "size_t \<Rightarrow> bool" where
  "align_assertion align = (align AND (align - 1) = 0)"

text \<open>\<open>uint32_t hdr_size = PTR_OFFSET_SZ + (align - 1);\<close>\<close>

definition hdr_size :: "size_t \<Rightarrow> uint32_t" where
  "hdr_size align = ucast (PTR_OFFSET_SZ + (align - 1))"

text \<open>The block guarded by \<open>if(align && size)\<close>; it returns the value of \<open>ptr\<close>.\<close>

definition aligned_malloc_body :: "(size_t \<Rightarrow> uintptr_t) \<Rightarrow> size_t \<Rightarrow> size_t \<Rightarrow> heap \<Rightarrow> uintptr_t \<times> heap" where
  "aligned_malloc_body alloc align sz h =
     (case malloc alloc (sz + ucast (hdr_size align)) h of
        (p, h1) \<Rightarrow>
          if p \<noteq> 0 then
            let ptr = align_up (p + PTR_OFFSET_SZ) align
            in (ptr, h1\<lparr>mem := store_offset (mem h1) (ptr - PTR_OFFSET_SZ) (ucast (ptr - p))\<rparr>)
          else (0, h1))"

definition aligned_malloc :: "bool \<Rightarrow> (size_t \<Rightarrow> uintptr_t) \<Rightarrow> size_t \<Rightarrow> size_t \<Rightarrow> heap \<Rightarrow> error \<times> heap + uintptr_t \<times> heap" where
  "aligned_malloc ndebug alloc align sz h =
     (if \<not> ndebug \<and> \<not> align_assertion align then Inl (AssertionFailed, h)
      else if align \<noteq> 0 \<and> sz \<noteq> 0 then Inr (aligned_malloc_body alloc align sz h)
      else Inr (0, h))"

definition aligned_free :: "bool \<Rightarrow> uintptr_t \<Rightarrow> heap \<Rightarrow> error \<times> heap + heap" where
  "aligned_free ndebug ptr h =
     (if \<not> ndebug \<and> ptr = 0 then Inl (AssertionFailed, h)
      else
        let offset = load_offset (mem h) (ptr - PTR_OFFSET_SZ);
            p = ptr - ucast offset
        in Inr (free p h))"

subsection \<open>Vocabulary of the specification\<close>

text \<open>A nonzero power of two that a \<open>size_t\<close> can hold.\<close>

definition is_pow2 :: "size_t \<Rightarrow> bool" where
  "is_pow2 a = (\<exists>n \<in> {0..<64}. a = 2 ^ n)"

text \<open>The size passed to \<open>malloc\<close> for a request that passes the guard.\<close>

definition padded_request :: "size_t \<Rightarrow> size_t \<Rightarrow> size_t" where
  "padded_request align sz = sz + ucast (hdr_size align)"

text \<open>
  The specification's padded request, over the mathematical integers:
  \<open>headerReserve = headerWidth + (alignment - 1)\<close> and a raw block of length
  \<open>size + headerReserve\<close>, with \<open>headerWidth\<close> the two bytes of the 16-bit header.
\<close>

definition spec_headerWidth :: nat where
  "spec_headerWidth = 2"

definition spec_headerReserve :: "nat \<Rightarrow> nat" where
  "spec_headerReserve alignment = spec_headerWidth + (alignment - 1)"

definition spec_padded_size :: "nat \<Rightarrow> nat \<Rightarrow> nat" where
  "spec_padded_size alignment sz = sz + spec_headerReserve alignment"

text \<open>An underlying allocator that answers every request with the address \<open>p\<close>.\<close>

definition const_alloc :: "uintptr_t \<Rightarrow> size_t \<Rightarrow> uintptr_t" where
  "const_alloc p n = p"

text \<open>A state to run the examples in: zeroed memory, no calls made yet.\<close>

definition heap0 :: heap where
  "heap0 = \<lparr>mem = (\<lambda>_. 0), malloc_calls = [], free_calls = []\<rparr>"


section \<open>Facts about the machine arithmetic\<close>

subsection \<open>Powers of two\<close>

lemma pow2_mask: "(2::size_t) ^ n - 1 = mask n"
  by (simp add: mask_eq_exp_minus_1)

lemma unat_pow2: "n < 64 \<Longrightarrow> unat ((2::size_t) ^ n) = 2 ^ n"
proof -
  assume n: "n < 64"
  have "unat ((2::size_t) ^ n) = unat (word_of_nat (2 ^ n) :: size_t)" by simp
  also have "\<dots> = 2 ^ n mod 2 ^ LENGTH(64)" by (rule unat_of_nat)
  also have "\<dots> = 2 ^ n" using power_strict_increasing [of n 64 "2::nat"] n by simp
  finally show ?thesis .
qed

lemma pow2_le_2p63: "n < 64 \<Longrightarrow> (2::nat) ^ n \<le> 9223372036854775808"
  using power_increasing [of n 63 "2::nat"] by simp

lemma unat_mask: "n < 64 \<Longrightarrow> unat (mask n :: size_t) = 2 ^ n - 1"
proof -
  assume n: "n < 64"
  then have "unat ((2::size_t) ^ n) \<noteq> 0" by (simp add: unat_pow2)
  then have "(2::size_t) ^ n \<noteq> 0" by (simp add: unat_eq_zero)
  then have "unat ((2::size_t) ^ n - 1) = unat ((2::size_t) ^ n) - 1" by (rule unat_minus_one)
  then show ?thesis using n by (simp add: pow2_mask unat_pow2)
qed

lemma is_pow2E:
  assumes "is_pow2 a"
  obtains n where "n < 64" and "a = 2 ^ n"
  using assms by (auto simp: is_pow2_def)

lemma is_pow2_neq_0: "is_pow2 a \<Longrightarrow> a \<noteq> 0"
proof -
  assume "is_pow2 a"
  then obtain n where n: "n < 64" "a = 2 ^ n" by (rule is_pow2E)
  then have "unat a \<noteq> 0" by (simp add: unat_pow2)
  then show ?thesis by (simp add: unat_eq_zero)
qed

text \<open>The assertion of \<open>aligned_malloc\<close> holds of every power of two.\<close>

lemma align_assertion_pow2: "align_assertion (2 ^ n)"
  unfolding align_assertion_def pow2_mask
  by (rule bit_word_eqI) (auto simp: bit_simps)

text \<open>
  Conversely a nonzero number that passes the assertion is a power of two: clearing
  the lowest set bit of \<open>x\<close> is what \<open>x AND (x - 1)\<close> does.
\<close>

lemma nat_and_pred_zero:
  fixes x :: nat
  assumes "x \<noteq> 0" "x AND (x - 1) = 0"
  shows "\<exists>n. x = 2 ^ n"
  using assms
proof (induction x rule: less_induct)
  case (less x)
  show ?case
  proof (cases "even x")
    case True
    then obtain y where y: "x = 2 * y" by (auto elim: evenE)
    with less.prems have y0: "y \<noteq> 0" by simp
    have pred: "x - 1 = 2 * (y - 1) + 1" using y y0 by simp
    have "x AND (x - 1) = 2 * (y AND (y - 1))"
      unfolding pred unfolding y by (subst and_nat_rec) simp
    with less.prems have "y AND (y - 1) = 0" by simp
    moreover have "y < x" using y y0 by simp
    ultimately obtain n where "y = 2 ^ n" using less.IH y0 by blast
    then have "x = 2 ^ Suc n" using y by simp
    then show ?thesis by blast
  next
    case False
    then obtain y where y: "x = 2 * y + 1" by (auto elim: oddE)
    have "x AND (x - 1) = 2 * y"
      unfolding y by (subst and_nat_rec) simp
    with less.prems have "y = 0" by simp
    then have "x = 2 ^ 0" using y by simp
    then show ?thesis by blast
  qed
qed

lemma is_pow2_iff: "is_pow2 a \<longleftrightarrow> a \<noteq> 0 \<and> align_assertion a"
proof
  assume "is_pow2 a"
  then show "a \<noteq> 0 \<and> align_assertion a"
    by (auto simp: is_pow2_neq_0 align_assertion_pow2 elim: is_pow2E)
next
  assume h: "a \<noteq> 0 \<and> align_assertion a"
  then have a0: "unat a \<noteq> 0" by (simp add: unat_eq_zero)
  have "unat (a AND (a - 1)) = 0" using h by (simp add: align_assertion_def)
  then have "unat a AND (unat a - 1) = 0"
    using h by (simp add: unsigned_and_eq unat_minus_one)
  with a0 obtain n where n: "unat a = 2 ^ n" using nat_and_pred_zero by blast
  have "unat a < 2 ^ LENGTH(64)" by (rule unsigned_less)
  with n have "(2::nat) ^ n < 2 ^ LENGTH(64)" by simp
  then have "n < LENGTH(64)" by (simp only: power_strict_increasing_iff semiring_norm)
  then have "n < 64" by simp
  moreover have "a = 2 ^ n"
  proof -
    have "a = word_of_nat (unat a)" by simp
    also have "\<dots> = 2 ^ n" unfolding n by simp
    finally show ?thesis .
  qed
  ultimately show "is_pow2 a" by (auto simp: is_pow2_def)
qed

lemma is_pow2_8: "is_pow2 8"
  unfolding is_pow2_def by (rule bexI [of _ 3]) simp_all

lemma is_pow2_65536: "is_pow2 65536"
  unfolding is_pow2_def by (rule bexI [of _ 16]) simp_all

lemma unat_is_pow2:
  assumes "is_pow2 a"
  obtains n where "n < 64" and "a = 2 ^ n" and "unat a = 2 ^ n"
  using assms by (auto elim!: is_pow2E simp: unat_pow2)

lemma not_is_pow2_6: "\<not> is_pow2 6"
  by (simp add: is_pow2_iff align_assertion_def)

subsection \<open>Rounding up\<close>

lemma and_not_mask_eq: "(y::size_t) AND NOT (mask n) = y - take_bit n y"
proof -
  have "push_bit n (drop_bit n y) + take_bit n y = y" by (rule bits_ident)
  moreover have "push_bit n (drop_bit n y) = y AND NOT (mask n)"
    by (rule bit_word_eqI) (auto simp: bit_simps)
  ultimately show ?thesis by (metis add_diff_cancel_right')
qed

lemma take_bit_le_mask: "take_bit n (y::size_t) \<le> mask n"
  by (simp add: take_bit_eq_mask word_and_le1)

lemma align_up_diff: "align_up x (2 ^ n) - x = mask n - take_bit n (x + mask n)"
  unfolding align_up_def pow2_mask and_not_mask_eq by simp

lemma align_up_diff_le: "align_up x (2 ^ n) - x \<le> mask n"
  unfolding align_up_diff
  using take_bit_le_mask [of n "x + mask n"]
  by (simp add: word_sub_le)

lemma align_up_low_bits: "take_bit n (align_up x (2 ^ n)) = 0"
  unfolding align_up_def pow2_mask
  by (rule bit_word_eqI) (auto simp: bit_simps)

lemma align_up_mod: "n < 64 \<Longrightarrow> unat (align_up x (2 ^ n)) mod unat ((2::size_t) ^ n) = 0"
proof -
  assume n: "n < 64"
  have "unat (take_bit n (align_up x (2 ^ n))) = 0" by (simp add: align_up_low_bits)
  then have "take_bit n (unat (align_up x (2 ^ n))) = 0" by (simp only: unsigned_take_bit_eq)
  then show ?thesis using n by (simp add: take_bit_eq_mod unat_pow2)
qed

text \<open>An address that is already a multiple of the alignment stays where it is.\<close>

lemma align_up_fixed:
  assumes n: "n < 64" and m: "unat x mod unat ((2::size_t) ^ n) = 0"
  shows "align_up x (2 ^ n) = x"
proof -
  have "take_bit n (unat x) = 0" using m n by (simp add: take_bit_eq_mod unat_pow2)
  then have "unat (take_bit n x) = 0" by (simp only: unsigned_take_bit_eq)
  then have t: "take_bit n x = 0" by (simp add: unat_eq_zero)
  then have "x AND mask n = 0" by (simp add: take_bit_eq_mask)
  then have "x + mask n = x OR mask n" by (rule disjunctive_add_eq_or)
  moreover have "(x OR mask n) AND NOT (mask n) = x AND NOT (mask n)"
    by (rule bit_word_eqI) (auto simp: bit_simps)
  ultimately have "align_up x (2 ^ n) = x AND NOT (mask n)"
    by (simp add: align_up_def pow2_mask)
  also have "\<dots> = x" by (simp add: and_not_mask_eq t)
  finally show ?thesis .
qed

text \<open>
  The distance from the raw address to the aligned one, in the wrapping arithmetic of
  \<open>uintptr_t\<close>: the header width plus a padding below the alignment.
\<close>

lemma distance_unat:
  assumes n: "n < 64"
  shows "2 \<le> unat (align_up (p + PTR_OFFSET_SZ) (2 ^ n) - p)
       \<and> unat (align_up (p + PTR_OFFSET_SZ) (2 ^ n) - p) \<le> 2 + (2 ^ n - 1)"
proof -
  define e where "e = align_up (p + PTR_OFFSET_SZ) (2 ^ n) - (p + PTR_OFFSET_SZ)"
  have "e \<le> mask n" unfolding e_def by (rule align_up_diff_le)
  then have e: "unat e \<le> 2 ^ n - 1" using n by (simp add: word_le_nat_alt unat_mask)
  have d: "align_up (p + PTR_OFFSET_SZ) (2 ^ n) - p = 2 + e"
    by (simp add: e_def PTR_OFFSET_SZ_def)
  have "unat (2::size_t) + unat e < 2 ^ LENGTH(64)"
    using e pow2_le_2p63 [OF n] by simp
  then have "unat (2 + e) = unat (2::size_t) + unat e" by (simp only: unat_add_lem)
  then have "unat (2 + e) = 2 + unat e" by simp
  moreover have "unat e + 1 \<le> 2 ^ n"
  proof -
    have "0 < (2::nat) ^ n" by simp
    with e show ?thesis by linarith
  qed
  ultimately show ?thesis using d by simp
qed

text \<open>The distance in the words of the specification.\<close>

lemma distance_spec:
  assumes "is_pow2 a"
  shows "spec_headerWidth \<le> unat (align_up (p + PTR_OFFSET_SZ) a - p)"
    and "unat (align_up (p + PTR_OFFSET_SZ) a - p) \<le> spec_headerReserve (unat a)"
proof -
  from assms obtain n where n: "n < 64" "a = 2 ^ n" "unat a = 2 ^ n" by (rule unat_is_pow2)
  have "2 \<le> unat (align_up (p + PTR_OFFSET_SZ) a - p)
      \<and> unat (align_up (p + PTR_OFFSET_SZ) a - p) \<le> 2 + (unat a - 1)"
    unfolding n(3) unfolding n(2) using n(1) by (rule distance_unat)
  then show "spec_headerWidth \<le> unat (align_up (p + PTR_OFFSET_SZ) a - p)"
    and "unat (align_up (p + PTR_OFFSET_SZ) a - p) \<le> spec_headerReserve (unat a)"
    by (simp_all add: spec_headerWidth_def spec_headerReserve_def)
qed

text \<open>Unless the addresses wrap around, the distance is the difference of the addresses.\<close>

lemma location_no_wrap:
  assumes "is_pow2 a" and "unat p + spec_headerReserve (unat a) < 2 ^ 64"
  shows "unat (align_up (p + PTR_OFFSET_SZ) a) = unat p + unat (align_up (p + PTR_OFFSET_SZ) a - p)"
proof -
  define q where "q = align_up (p + PTR_OFFSET_SZ) a"
  have "unat (q - p) \<le> spec_headerReserve (unat a)"
    unfolding q_def using assms(1) by (rule distance_spec)
  then have "unat p + unat (q - p) < 2 ^ LENGTH(64)" using assms(2) by simp
  then have "unat (p + (q - p)) = unat p + unat (q - p)" by (simp only: unat_add_lem)
  then show ?thesis by (simp add: q_def)
qed

subsection \<open>The header in memory\<close>

lemma unat_ucast_up:
  fixes w :: "'a::len word"
  assumes "LENGTH('a) \<le> LENGTH('b::len)"
  shows "unat (ucast w :: 'b word) = unat w"
proof -
  have "unat w < 2 ^ LENGTH('a)" by (rule unsigned_less)
  also have "(2::nat) ^ LENGTH('a) \<le> 2 ^ LENGTH('b)" using assms by (simp add: power_increasing)
  finally have "take_bit LENGTH('b) (unat w) = unat w" by (simp only: take_bit_nat_eq_self_iff)
  then show ?thesis by (simp only: unsigned_ucast_eq)
qed

lemma load_store_offset: "load_offset (store_offset m a v) a = v"
  unfolding load_offset_def store_offset_def
  apply simp
  apply (rule bit_word_eqI)
  apply (auto simp: bit_simps)
  done

lemma ucast_offset_id: "unat (d::size_t) \<le> 65535 \<Longrightarrow> ucast (ucast d :: offset_t) = d"
proof -
  assume "unat d \<le> 65535"
  then have "unat d < 2 ^ 16" by simp
  then have "take_bit 16 (unat d) = unat d" by (simp only: take_bit_nat_eq_self_iff)
  then have "unat (take_bit 16 d) = unat d" by (simp only: unsigned_take_bit_eq)
  then have "take_bit 16 d = d" by (simp only: word_unat_eq_iff)
  moreover have "ucast (ucast d :: offset_t) = take_bit 16 d"
    by (rule bit_word_eqI) (auto simp: bit_simps)
  ultimately show ?thesis by simp
qed

text \<open>The 16-bit header holds 65536 as 0.\<close>

lemma offset_65536: "(65536 :: offset_t) = 0"
  by simp

lemma header_lossless:
  assumes "is_pow2 a" and "spec_headerReserve (unat a) \<le> 65535"
  shows "ucast (ucast (align_up (p + PTR_OFFSET_SZ) a - p) :: offset_t) = align_up (p + PTR_OFFSET_SZ) a - p"
  using distance_spec(2) [OF assms(1), of p] assms(2) by (intro ucast_offset_id) simp

subsection \<open>The padded request\<close>

text \<open>
  The header reserve goes through a \<open>uint32_t\<close> and the sum through a \<open>size_t\<close>: the
  request is the specification's padded size up to these two reductions.
\<close>

lemma unat_hdr_size:
  assumes "a \<noteq> 0"
  shows "unat (hdr_size a) = spec_headerReserve (unat a) mod 2 ^ 32"
proof -
  have "unat (hdr_size a) = take_bit 32 (unat (PTR_OFFSET_SZ + (a - 1)))"
    by (simp add: hdr_size_def unsigned_ucast_eq)
  also have "\<dots> = unat (PTR_OFFSET_SZ + (a - 1)) mod 2 ^ 32" by (simp only: take_bit_eq_mod)
  also have "unat (PTR_OFFSET_SZ + (a - 1)) = (unat PTR_OFFSET_SZ + unat (a - 1)) mod 2 ^ LENGTH(64)"
    by (simp only: unat_word_ariths)
  also have "unat (a - 1) = unat a - 1" using assms by (rule unat_minus_one)
  also have "unat PTR_OFFSET_SZ = spec_headerWidth" by (simp add: PTR_OFFSET_SZ_def spec_headerWidth_def)
  also have "(spec_headerWidth + (unat a - 1)) mod 2 ^ LENGTH(64) mod 2 ^ 32
      = (spec_headerWidth + (unat a - 1)) mod 2 ^ 32"
    by (rule mod_mod_cancel) (simp add: le_imp_power_dvd)
  finally show ?thesis by (simp only: spec_headerReserve_def)
qed

lemma unat_padded_request:
  assumes "a \<noteq> 0"
  shows "unat (padded_request a sz) = (unat sz + spec_headerReserve (unat a) mod 2 ^ 32) mod 2 ^ 64"
proof -
  have "unat (ucast (hdr_size a) :: size_t) = unat (hdr_size a)" by (rule unat_ucast_up) simp
  then have "unat (padded_request a sz) = (unat sz + unat (hdr_size a)) mod 2 ^ LENGTH(64)"
    by (simp only: padded_request_def unat_word_ariths)
  then show ?thesis using assms by (simp add: unat_hdr_size)
qed

text \<open>Where neither reduction bites, the request is the specification's padded size.\<close>

lemma padded_request_exact:
  assumes "a \<noteq> 0" and "spec_headerReserve (unat a) < 2 ^ 32"
    and "spec_padded_size (unat a) (unat sz) < 2 ^ 64"
  shows "unat (padded_request a sz) = spec_padded_size (unat a) (unat sz)"
  using assms(2,3) unfolding unat_padded_request [OF assms(1)] by (simp add: spec_padded_size_def)

subsection \<open>The paths through aligned\_malloc\<close>

lemma aligned_malloc_body_success:
  assumes "alloc (padded_request a sz) = p" and "p \<noteq> 0"
  shows "aligned_malloc_body alloc a sz h =
           (align_up (p + PTR_OFFSET_SZ) a,
            h\<lparr>mem := store_offset (mem h) (align_up (p + PTR_OFFSET_SZ) a - PTR_OFFSET_SZ)
                       (ucast (align_up (p + PTR_OFFSET_SZ) a - p)),
              malloc_calls := malloc_calls h @ [padded_request a sz]\<rparr>)"
  using assms by (simp add: aligned_malloc_body_def malloc_def padded_request_def Let_def)

lemma aligned_malloc_body_failure:
  assumes "alloc (padded_request a sz) = 0"
  shows "aligned_malloc_body alloc a sz h =
           (0, h\<lparr>malloc_calls := malloc_calls h @ [padded_request a sz]\<rparr>)"
  using assms by (simp add: aligned_malloc_body_def malloc_def padded_request_def)

lemma aligned_malloc_valid:
  assumes "is_pow2 a" and "sz \<noteq> 0"
  shows "aligned_malloc ndebug alloc a sz h = Inr (aligned_malloc_body alloc a sz h)"
  using assms by (simp add: aligned_malloc_def is_pow2_iff)

text \<open>What a call does when \<open>malloc\<close> succeeds.\<close>

lemma aligned_malloc_success:
  assumes "is_pow2 a" and "sz \<noteq> 0" and "alloc (padded_request a sz) = p" and "p \<noteq> 0"
  shows "aligned_malloc ndebug alloc a sz h =
           Inr (align_up (p + PTR_OFFSET_SZ) a,
                h\<lparr>mem := store_offset (mem h) (align_up (p + PTR_OFFSET_SZ) a - PTR_OFFSET_SZ)
                           (ucast (align_up (p + PTR_OFFSET_SZ) a - p)),
                  malloc_calls := malloc_calls h @ [padded_request a sz]\<rparr>)"
  using assms by (simp add: aligned_malloc_valid aligned_malloc_body_success)

text \<open>What a call that returned a pointer has done.\<close>

lemma aligned_malloc_returned:
  assumes "is_pow2 a" and "sz \<noteq> 0"
    and "aligned_malloc ndebug alloc a sz h = Inr (q, h1)" and "q \<noteq> 0"
  shows "alloc (padded_request a sz) \<noteq> 0"
    and "q = align_up (alloc (padded_request a sz) + PTR_OFFSET_SZ) a"
    and "malloc_calls h1 = malloc_calls h @ [padded_request a sz]"
    and "free_calls h1 = free_calls h"
    and "load_offset (mem h1) (q - PTR_OFFSET_SZ) = ucast (q - alloc (padded_request a sz))"
proof -
  have b: "aligned_malloc_body alloc a sz h = (q, h1)"
    using assms(1-3) by (simp add: aligned_malloc_valid)
  show p: "alloc (padded_request a sz) \<noteq> 0"
  proof
    assume "alloc (padded_request a sz) = 0"
    then have "fst (aligned_malloc_body alloc a sz h) = 0"
      by (simp add: aligned_malloc_body_failure)
    with b assms(4) show False by simp
  qed
  note s = aligned_malloc_body_success [where alloc = alloc and a = a and sz = sz and h = h, OF refl p]
  from b s show "q = align_up (alloc (padded_request a sz) + PTR_OFFSET_SZ) a" by simp
  from b s show "malloc_calls h1 = malloc_calls h @ [padded_request a sz]" by auto
  from b s show "free_calls h1 = free_calls h" by auto
  from b s show "load_offset (mem h1) (q - PTR_OFFSET_SZ) = ucast (q - alloc (padded_request a sz))"
    by (auto simp: load_store_offset)
qed

section \<open>The claims\<close>

text \<open>
  C1. For every alignment \<open>a\<close> that is a nonzero power of two and every size \<open>sz > 0\<close>,
  if the underlying \<open>malloc\<close> succeeds with the raw address \<open>p\<close>, then \<open>aligned_malloc a sz\<close>
  returns, in either build configuration, a pointer whose address is a multiple of \<open>a\<close>.
  The pointer is the one rounded up from the raw block: its distance from \<open>p\<close> is at
  least the header width and at most the header reserve, and unless the addresses wrap
  around it is not null and lies within \<open>[p + headerWidth, p + headerReserve]\<close>.
\<close>

theorem aligned_malloc_address_aligned:
  assumes "is_pow2 a" and "sz \<noteq> 0" and "alloc (padded_request a sz) = p" and "p \<noteq> 0"
  shows "\<exists>ptr h'. aligned_malloc ndebug alloc a sz h = Inr (ptr, h')
           \<and> unat ptr mod unat a = 0
           \<and> spec_headerWidth \<le> unat (ptr - p) \<and> unat (ptr - p) \<le> spec_headerReserve (unat a)
           \<and> (unat p + spec_headerReserve (unat a) < 2 ^ 64 \<longrightarrow>
                 ptr \<noteq> 0 \<and> unat p + spec_headerWidth \<le> unat ptr
                 \<and> unat ptr \<le> unat p + spec_headerReserve (unat a))"
proof -
  from assms(1) obtain n where n: "n < 64" "a = 2 ^ n" by (rule is_pow2E)
  define q where "q = align_up (p + PTR_OFFSET_SZ) a"
  have m: "\<exists>h'. aligned_malloc ndebug alloc a sz h = Inr (q, h')"
    unfolding q_def
    using aligned_malloc_success [where alloc = alloc and p = p and a = a and sz = sz, OF assms]
    by blast
  have al: "unat q mod unat a = 0"
    unfolding q_def n(2) using n(1) by (rule align_up_mod)
  have lo: "spec_headerWidth \<le> unat (q - p)" and hi: "unat (q - p) \<le> spec_headerReserve (unat a)"
    unfolding q_def using assms(1) by (rule distance_spec)+
  have loc: "q \<noteq> 0 \<and> unat p + spec_headerWidth \<le> unat q
        \<and> unat q \<le> unat p + spec_headerReserve (unat a)"
    if w: "unat p + spec_headerReserve (unat a) < 2 ^ 64"
  proof -
    have u: "unat q = unat p + unat (q - p)"
      unfolding q_def using assms(1) w by (rule location_no_wrap)
    have "0 < spec_headerWidth" by (simp add: spec_headerWidth_def)
    with u lo have "unat q \<noteq> 0" by linarith
    then have "q \<noteq> 0" by (simp add: unat_eq_zero)
    with u lo hi show ?thesis by simp
  qed
  from m obtain h' where "aligned_malloc ndebug alloc a sz h = Inr (q, h')" ..
  with al lo hi loc show ?thesis by (intro exI [of _ q] exI [of _ h']) simp
qed

theorem aligned_malloc_address_aligned_witness:
  "is_pow2 8 \<and> (100::size_t) \<noteq> 0 \<and> const_alloc 0x1001 (padded_request 8 100) = 0x1001
   \<and> (0x1001::uintptr_t) \<noteq> 0
   \<and> unat (0x1001::uintptr_t) + spec_headerReserve (unat (8::size_t)) < 2 ^ 64
   \<and> (\<exists>ptr h'. aligned_malloc False (const_alloc 0x1001) 8 100 heap0 = Inr (ptr, h')
         \<and> unat ptr mod 8 = 0 \<and> 2 \<le> unat (ptr - 0x1001) \<and> unat (ptr - 0x1001) \<le> 9
         \<and> ptr \<noteq> 0 \<and> 0x1003 \<le> unat ptr \<and> unat ptr \<le> 0x100A)"
proof -
  have s: "(100::size_t) \<noteq> 0" by simp
  have c: "const_alloc 0x1001 (padded_request 8 100) = 0x1001" by (simp add: const_alloc_def)
  have p: "(0x1001::uintptr_t) \<noteq> 0" by simp
  have w: "unat (0x1001::uintptr_t) + spec_headerReserve (unat (8::size_t)) < 2 ^ 64"
    by (simp add: spec_headerReserve_def spec_headerWidth_def)
  have v: "spec_headerReserve 8 = 9" "spec_headerWidth = 2"
    by (simp_all add: spec_headerReserve_def spec_headerWidth_def)
  from aligned_malloc_address_aligned [where a = 8 and sz = 100 and ndebug = False
        and alloc = "const_alloc 0x1001" and h = heap0 and p = "0x1001", OF is_pow2_8 s c p]
  obtain ptr h' where "aligned_malloc False (const_alloc 0x1001) 8 100 heap0 = Inr (ptr, h')"
    and "unat ptr mod unat (8::size_t) = 0"
    and "spec_headerWidth \<le> unat (ptr - 0x1001)"
    and "unat (ptr - 0x1001) \<le> spec_headerReserve (unat (8::size_t))"
    and "ptr \<noteq> 0 \<and> unat (0x1001::uintptr_t) + spec_headerWidth \<le> unat ptr
          \<and> unat ptr \<le> unat (0x1001::uintptr_t) + spec_headerReserve (unat (8::size_t))"
    using w by auto
  then have "aligned_malloc False (const_alloc 0x1001) 8 100 heap0 = Inr (ptr, h')
         \<and> unat ptr mod 8 = 0 \<and> 2 \<le> unat (ptr - 0x1001) \<and> unat (ptr - 0x1001) \<le> 9
         \<and> ptr \<noteq> 0 \<and> 0x1003 \<le> unat ptr \<and> unat ptr \<le> 0x100A"
    by (simp add: v)
  then have "\<exists>ptr h'. aligned_malloc False (const_alloc 0x1001) 8 100 heap0 = Inr (ptr, h')
         \<and> unat ptr mod 8 = 0 \<and> 2 \<le> unat (ptr - 0x1001) \<and> unat (ptr - 0x1001) \<le> 9
         \<and> ptr \<noteq> 0 \<and> 0x1003 \<le> unat ptr \<and> unat ptr \<le> 0x100A"
    by (intro exI [of _ ptr] exI [of _ h'])
  with is_pow2_8 s c p w show ?thesis by (intro conjI)
qed

text \<open>
  C2, as amended. Round trip, for the alignments whose header reserve fits the 16-bit
  header (\<open>headerWidth + (a - 1) \<le> 65535\<close>, a power of two up to 32768): when
  \<open>aligned_malloc a sz\<close> has returned a pointer \<open>q\<close>, it made one call of \<open>malloc\<close>, for
  the padded request, and \<open>aligned_free q\<close> reads the stored offset, subtracts it from
  \<open>q\<close> and passes to \<open>free\<close> exactly the address that call of \<open>malloc\<close> answered.
\<close>

theorem aligned_free_round_trip:
  assumes "is_pow2 a" and "spec_headerReserve (unat a) \<le> 65535" and "sz \<noteq> 0"
    and "aligned_malloc ndebug alloc a sz h = Inr (q, h1)" and "q \<noteq> 0"
  shows "malloc_calls h1 = malloc_calls h @ [padded_request a sz]
       \<and> q - ucast (load_offset (mem h1) (q - PTR_OFFSET_SZ)) = alloc (padded_request a sz)
       \<and> aligned_free ndebug' q h1 = Inr (free (alloc (padded_request a sz)) h1)"
proof -
  note r = aligned_malloc_returned [OF assms(1,3,4,5)]
  have "ucast (load_offset (mem h1) (q - PTR_OFFSET_SZ)) = q - alloc (padded_request a sz)"
    unfolding r(5) unfolding r(2) using assms(1,2) by (rule header_lossless)
  then have "q - ucast (load_offset (mem h1) (q - PTR_OFFSET_SZ)) = alloc (padded_request a sz)"
    by simp
  then show ?thesis using r(3) assms(5) by (simp add: aligned_free_def Let_def)
qed

theorem aligned_free_round_trip_witness:
  "is_pow2 8 \<and> spec_headerReserve (unat (8::size_t)) \<le> 65535 \<and> (100::size_t) \<noteq> 0
   \<and> aligned_malloc False (const_alloc 0x1001) 8 100 heap0 =
        Inr (0x1008, \<lparr>mem = store_offset (mem heap0) 0x1006 7, malloc_calls = [109], free_calls = []\<rparr>)
   \<and> (0x1008::uintptr_t) \<noteq> 0
   \<and> aligned_free False 0x1008
         \<lparr>mem = store_offset (mem heap0) 0x1006 7, malloc_calls = [109], free_calls = []\<rparr> =
        Inr \<lparr>mem = store_offset (mem heap0) 0x1006 7, malloc_calls = [109], free_calls = [0x1001]\<rparr>"
proof -
  have r: "spec_headerReserve (unat (8::size_t)) \<le> 65535"
    by (simp add: spec_headerReserve_def spec_headerWidth_def)
  have s: "(100::size_t) \<noteq> 0" by simp
  have m: "aligned_malloc False (const_alloc 0x1001) 8 100 heap0 =
        Inr (0x1008, \<lparr>mem = store_offset (mem heap0) 0x1006 7, malloc_calls = [109], free_calls = []\<rparr>)"
    by (simp add: aligned_malloc_def aligned_malloc_body_def malloc_def const_alloc_def
      hdr_size_def PTR_OFFSET_SZ_def align_up_def align_assertion_def heap0_def)
  have q: "(0x1008::uintptr_t) \<noteq> 0" by simp
  show ?thesis
    using is_pow2_8 r s m q
      aligned_free_round_trip [where a = 8 and sz = 100 and ndebug = False
        and alloc = "const_alloc 0x1001" and h = heap0 and q = "0x1008" and ndebug' = False,
        OF is_pow2_8 r s m q]
    by (simp add: free_def const_alloc_def)
qed

text \<open>
  The claim as stated, for every power of two, fails at the alignment 65536: with the raw
  block at \<open>0x10000\<close> the distance is 65536, the header stores 0, and \<open>free\<close> receives
  the aligned address \<open>0x20000\<close> instead of the raw one.
\<close>

theorem round_trip_counterexample:
  "is_pow2 65536 \<and> (1::size_t) \<noteq> 0
   \<and> aligned_malloc False (const_alloc 0x10000) 65536 1 heap0 =
        Inr (0x20000, \<lparr>mem = store_offset (mem heap0) 0x1FFFE 0, malloc_calls = [0x10002], free_calls = []\<rparr>)
   \<and> aligned_free False 0x20000
         \<lparr>mem = store_offset (mem heap0) 0x1FFFE 0, malloc_calls = [0x10002], free_calls = []\<rparr> =
        Inr \<lparr>mem = store_offset (mem heap0) 0x1FFFE 0, malloc_calls = [0x10002], free_calls = [0x20000]\<rparr>
   \<and> const_alloc 0x10000 (0x10002 :: size_t) \<noteq> 0x20000"
proof -
  have m: "aligned_malloc False (const_alloc 0x10000) 65536 1 heap0 =
        Inr (0x20000, \<lparr>mem = store_offset (mem heap0) 0x1FFFE 0, malloc_calls = [0x10002], free_calls = []\<rparr>)"
    by (simp add: aligned_malloc_def aligned_malloc_body_def malloc_def const_alloc_def
      hdr_size_def PTR_OFFSET_SZ_def align_up_def align_assertion_def heap0_def offset_65536)
  have f: "aligned_free False 0x20000
         \<lparr>mem = store_offset (mem heap0) 0x1FFFE 0, malloc_calls = [0x10002], free_calls = []\<rparr> =
        Inr \<lparr>mem = store_offset (mem heap0) 0x1FFFE 0, malloc_calls = [0x10002], free_calls = [0x20000]\<rparr>"
    by (simp add: aligned_free_def free_def PTR_OFFSET_SZ_def load_store_offset)
  show ?thesis using is_pow2_65536 m f by (simp add: const_alloc_def)
qed

text \<open>
  C3, as amended. For every nonzero alignment that is not a power of two, a build with
  assertions enabled stops \<open>aligned_malloc\<close> at the failed assertion, before any call of
  the underlying allocator: the state at the abort is the state of the call, with no
  request logged and memory untouched, and no pointer is returned. The check is an
  \<open>assert\<close>: with \<open>NDEBUG\<close> it is not evaluated and the call runs on as for any other
  alignment.
\<close>

theorem non_power_of_two_assertion:
  assumes "a \<noteq> 0" and "\<not> is_pow2 a"
  shows "aligned_malloc False alloc a sz h = Inl (AssertionFailed, h)
       \<and> aligned_malloc True alloc a sz h =
           (if sz \<noteq> 0 then Inr (aligned_malloc_body alloc a sz h) else Inr (0, h))"
  using assms by (simp add: aligned_malloc_def is_pow2_iff)

theorem non_power_of_two_assertion_witness:
  "(6::size_t) \<noteq> 0 \<and> \<not> is_pow2 6
   \<and> aligned_malloc False (const_alloc 0x1008) 6 10 heap0 = Inl (AssertionFailed, heap0)
   \<and> malloc_calls heap0 = []
   \<and> aligned_malloc True (const_alloc 0x1008) 6 10 heap0 =
         Inr (aligned_malloc_body (const_alloc 0x1008) 6 10 heap0)"
proof -
  have a: "(6::size_t) \<noteq> 0" by simp
  show ?thesis
    using a not_is_pow2_6
      non_power_of_two_assertion [where a = 6 and alloc = "const_alloc 0x1008" and sz = 10
        and h = heap0, OF a not_is_pow2_6]
    by (simp add: heap0_def)
qed

text \<open>
  The claim as stated fails: with the assertion compiled out, \<open>aligned_malloc(6, 10)\<close> on
  a raw block at \<open>0x1008\<close> returns \<open>0x100A\<close>, which is not a multiple of 6; with the
  assertion compiled in, the call aborts instead of returning a failure.
\<close>

theorem misaligned_pointer_counterexample:
  "\<not> is_pow2 6
   \<and> aligned_malloc True (const_alloc 0x1008) 6 10 heap0 =
       Inr (0x100A, \<lparr>mem = store_offset (mem heap0) 0x1008 2, malloc_calls = [17], free_calls = []\<rparr>)
   \<and> unat (0x100A :: uintptr_t) mod unat (6 :: size_t) = 2
   \<and> aligned_malloc False (const_alloc 0x1008) 6 10 heap0 = Inl (AssertionFailed, heap0)"
  by (simp add: not_is_pow2_6 aligned_malloc_def aligned_malloc_body_def malloc_def const_alloc_def
      hdr_size_def PTR_OFFSET_SZ_def align_up_def align_assertion_def heap0_def)

text \<open>
  C4, as amended. For every size, \<open>aligned_malloc(0, sz)\<close> returns the null pointer and
  leaves the state unchanged, so no call of the underlying allocator is made; for every
  alignment, \<open>aligned_malloc(a, 0)\<close> does the same, unless \<open>a\<close> is nonzero and not a power
  of two and assertions are enabled, where it aborts, again with the state unchanged
  and no call made. The two failures are the same null pointer: no error kind is
  reported.
\<close>

theorem invalid_arguments_null:
  "aligned_malloc ndebug alloc 0 sz h = Inr (0, h)
   \<and> aligned_malloc ndebug alloc a 0 h =
       (if \<not> ndebug \<and> a \<noteq> 0 \<and> \<not> is_pow2 a then Inl (AssertionFailed, h) else Inr (0, h))"
  by (auto simp: aligned_malloc_def is_pow2_iff align_assertion_def)

theorem invalid_arguments_null_witness:
  "aligned_malloc True (const_alloc 0x1000) 0 10 heap0 = Inr (0, heap0)
   \<and> aligned_malloc True (const_alloc 0x1000) 6 0 heap0 = Inr (0, heap0)
   \<and> aligned_malloc False (const_alloc 0x1000) 6 0 heap0 = Inl (AssertionFailed, heap0)
   \<and> aligned_malloc False (const_alloc 0x1000) 8 0 heap0 = Inr (0, heap0)
   \<and> malloc_calls heap0 = []"
  using invalid_arguments_null [where ndebug = True and alloc = "const_alloc 0x1000" and sz = 10
      and h = heap0 and a = 6]
    invalid_arguments_null [where ndebug = False and alloc = "const_alloc 0x1000" and sz = 10
      and h = heap0 and a = 6]
    invalid_arguments_null [where ndebug = False and alloc = "const_alloc 0x1000" and sz = 10
      and h = heap0 and a = 8]
  by (simp add: heap0_def is_pow2_8 not_is_pow2_6)

text \<open>
  The claim as stated fails: zero alignment and zero size give the same result, which
  tells neither failure from the other, and \<open>aligned_malloc(6, 0)\<close> with assertions
  enabled does not return at all.
\<close>

theorem invalid_arguments_counterexample:
  "aligned_malloc False (const_alloc 0x1000) 0 10 heap0 = Inr (0, heap0)
   \<and> aligned_malloc False (const_alloc 0x1000) 8 0 heap0 = Inr (0, heap0)
   \<and> aligned_malloc False (const_alloc 0x1000) 6 0 heap0 = Inl (AssertionFailed, heap0)"
  by (simp add: aligned_malloc_def align_assertion_def)

text \<open>
  C5. For every valid alignment and size, when the underlying allocator answers the
  padded request with null, \<open>aligned_malloc\<close> returns null at once: \<open>malloc\<close> has been
  called exactly once (no retry) and memory is unchanged (no header is written).
\<close>

theorem malloc_failure_propagates:
  assumes "is_pow2 a" and "sz \<noteq> 0" and "alloc (padded_request a sz) = 0"
  shows "aligned_malloc ndebug alloc a sz h =
           Inr (0, h\<lparr>malloc_calls := malloc_calls h @ [padded_request a sz]\<rparr>)"
  using assms by (simp add: aligned_malloc_valid aligned_malloc_body_failure)

theorem malloc_failure_propagates_witness:
  "is_pow2 8 \<and> (100::size_t) \<noteq> 0 \<and> const_alloc 0 (padded_request 8 100) = 0
   \<and> aligned_malloc False (const_alloc 0) 8 100 heap0 =
         Inr (0, \<lparr>mem = mem heap0, malloc_calls = [109], free_calls = []\<rparr>)"
proof -
  have p: "const_alloc 0 (padded_request 8 100) = 0" by (simp add: const_alloc_def)
  have s: "(100::size_t) \<noteq> 0" by simp
  have r: "padded_request 8 100 = 109" by (simp add: padded_request_def hdr_size_def PTR_OFFSET_SZ_def)
  show ?thesis
    using is_pow2_8 s p
      malloc_failure_propagates [where a = 8 and sz = 100 and alloc = "const_alloc 0"
        and ndebug = False and h = heap0, OF is_pow2_8 s p]
    by (simp add: r heap0_def)
qed

text \<open>
  C6, as amended. For every alignment \<open>a\<close> that is a nonzero power of two and every size
  \<open>sz > 0\<close>, when \<open>malloc\<close> succeeds the distance from the aligned pointer back to the raw
  pointer satisfies \<open>headerWidth \<le> distance \<le> headerWidth + (a - 1)\<close>, so that, unless the
  addresses wrap around, the aligned pointer lies within
  \<open>[raw + headerWidth, raw + headerReserve]\<close>. The offset written into the header is this
  distance narrowed to 16 bits; it is the distance itself, within the same bounds, when
  \<open>headerWidth + (a - 1) \<le> 65535\<close>.
\<close>

theorem stored_offset_bounds:
  assumes "is_pow2 a" and "sz \<noteq> 0" and "alloc (padded_request a sz) = p" and "p \<noteq> 0"
  shows "\<exists>q h1. aligned_malloc ndebug alloc a sz h = Inr (q, h1)
           \<and> spec_headerWidth \<le> unat (q - p) \<and> unat (q - p) \<le> spec_headerReserve (unat a)
           \<and> (unat p + spec_headerReserve (unat a) < 2 ^ 64 \<longrightarrow>
                 unat p + spec_headerWidth \<le> unat q \<and> unat q \<le> unat p + spec_headerReserve (unat a))
           \<and> load_offset (mem h1) (q - PTR_OFFSET_SZ) = ucast (q - p)
           \<and> (spec_headerReserve (unat a) \<le> 65535 \<longrightarrow>
                 ucast (load_offset (mem h1) (q - PTR_OFFSET_SZ)) = q - p
                 \<and> spec_headerWidth \<le> unat (load_offset (mem h1) (q - PTR_OFFSET_SZ))
                 \<and> unat (load_offset (mem h1) (q - PTR_OFFSET_SZ)) \<le> spec_headerReserve (unat a))"
proof -
  define q where "q = align_up (p + PTR_OFFSET_SZ) a"
  define h1 where "h1 = h\<lparr>mem := store_offset (mem h) (q - PTR_OFFSET_SZ) (ucast (q - p)),
              malloc_calls := malloc_calls h @ [padded_request a sz]\<rparr>"
  define off where "off = load_offset (mem h1) (q - PTR_OFFSET_SZ)"
  have m: "aligned_malloc ndebug alloc a sz h = Inr (q, h1)"
    unfolding q_def h1_def q_def using assms by (rule aligned_malloc_success)
  have off: "off = ucast (q - p)" by (simp add: off_def h1_def load_store_offset)
  have lo: "spec_headerWidth \<le> unat (q - p)" and hi: "unat (q - p) \<le> spec_headerReserve (unat a)"
    unfolding q_def using assms(1) by (rule distance_spec)+
  have loc: "unat p + spec_headerWidth \<le> unat q \<and> unat q \<le> unat p + spec_headerReserve (unat a)"
    if w: "unat p + spec_headerReserve (unat a) < 2 ^ 64"
  proof -
    have "unat q = unat p + unat (q - p)"
      unfolding q_def using assms(1) w by (rule location_no_wrap)
    with lo hi show ?thesis by simp
  qed
  have fits: "ucast off = q - p \<and> spec_headerWidth \<le> unat off \<and> unat off \<le> spec_headerReserve (unat a)"
    if f: "spec_headerReserve (unat a) \<le> 65535"
  proof -
    have lossless: "ucast off = q - p"
      unfolding off q_def using assms(1) f by (rule header_lossless)
    have "unat (ucast off :: size_t) = unat off" by (rule unat_ucast_up) simp
    then have "unat off = unat (q - p)" by (simp add: lossless)
    with lossless lo hi show ?thesis by simp
  qed
  from m lo hi loc off fits show ?thesis
    unfolding off_def by (intro exI [of _ q] exI [of _ h1]) simp
qed

theorem stored_offset_bounds_witness:
  "is_pow2 8 \<and> (100::size_t) \<noteq> 0
   \<and> const_alloc 0x1001 (padded_request 8 100) = 0x1001 \<and> (0x1001::uintptr_t) \<noteq> 0
   \<and> unat (0x1001::uintptr_t) + spec_headerReserve (unat (8::size_t)) < 2 ^ 64
   \<and> spec_headerReserve (unat (8::size_t)) \<le> 65535
   \<and> (\<exists>q h1. aligned_malloc False (const_alloc 0x1001) 8 100 heap0 = Inr (q, h1)
          \<and> 2 \<le> unat (q - 0x1001) \<and> unat (q - 0x1001) \<le> 9
          \<and> 0x1003 \<le> unat q \<and> unat q \<le> 0x100A
          \<and> ucast (load_offset (mem h1) (q - PTR_OFFSET_SZ)) = q - 0x1001
          \<and> 2 \<le> unat (load_offset (mem h1) (q - PTR_OFFSET_SZ))
          \<and> unat (load_offset (mem h1) (q - PTR_OFFSET_SZ)) \<le> 9)"
proof -
  have s: "(100::size_t) \<noteq> 0" by simp
  have c: "const_alloc 0x1001 (padded_request 8 100) = 0x1001" by (simp add: const_alloc_def)
  have p: "(0x1001::uintptr_t) \<noteq> 0" by simp
  have w: "unat (0x1001::uintptr_t) + spec_headerReserve (unat (8::size_t)) < 2 ^ 64"
    by (simp add: spec_headerReserve_def spec_headerWidth_def)
  have r: "spec_headerReserve (unat (8::size_t)) \<le> 65535"
    by (simp add: spec_headerReserve_def spec_headerWidth_def)
  have v: "spec_headerReserve 8 = 9" "spec_headerWidth = 2"
    by (simp_all add: spec_headerReserve_def spec_headerWidth_def)
  from stored_offset_bounds [where a = 8 and sz = 100 and ndebug = False
        and alloc = "const_alloc 0x1001" and h = heap0 and p = "0x1001", OF is_pow2_8 s c p]
  obtain q h1 where "aligned_malloc False (const_alloc 0x1001) 8 100 heap0 = Inr (q, h1)"
    and "spec_headerWidth \<le> unat (q - 0x1001)"
    and "unat (q - 0x1001) \<le> spec_headerReserve (unat (8::size_t))"
    and "unat (0x1001::uintptr_t) + spec_headerWidth \<le> unat q
          \<and> unat q \<le> unat (0x1001::uintptr_t) + spec_headerReserve (unat (8::size_t))"
    and "ucast (load_offset (mem h1) (q - PTR_OFFSET_SZ)) = q - 0x1001
          \<and> spec_headerWidth \<le> unat (load_offset (mem h1) (q - PTR_OFFSET_SZ))
          \<and> unat (load_offset (mem h1) (q - PTR_OFFSET_SZ)) \<le> spec_headerReserve (unat (8::size_t))"
    using w r by auto
  then have "aligned_malloc False (const_alloc 0x1001) 8 100 heap0 = Inr (q, h1)
          \<and> 2 \<le> unat (q - 0x1001) \<and> unat (q - 0x1001) \<le> 9
          \<and> 0x1003 \<le> unat q \<and> unat q \<le> 0x100A
          \<and> ucast (load_offset (mem h1) (q - PTR_OFFSET_SZ)) = q - 0x1001
          \<and> 2 \<le> unat (load_offset (mem h1) (q - PTR_OFFSET_SZ))
          \<and> unat (load_offset (mem h1) (q - PTR_OFFSET_SZ)) \<le> 9"
    by (simp add: v)
  then have "\<exists>q h1. aligned_malloc False (const_alloc 0x1001) 8 100 heap0 = Inr (q, h1)
          \<and> 2 \<le> unat (q - 0x1001) \<and> unat (q - 0x1001) \<le> 9
          \<and> 0x1003 \<le> unat q \<and> unat q \<le> 0x100A
          \<and> ucast (load_offset (mem h1) (q - PTR_OFFSET_SZ)) = q - 0x1001
          \<and> 2 \<le> unat (load_offset (mem h1) (q - PTR_OFFSET_SZ))
          \<and> unat (load_offset (mem h1) (q - PTR_OFFSET_SZ)) \<le> 9"
    by (intro exI [of _ q] exI [of _ h1])
  with is_pow2_8 s c p w r show ?thesis by (intro conjI)
qed

text \<open>
  The claim as stated, for every power of two, fails in its bound on the offset written
  at the alignment 65536: with the raw block at \<open>0x10000\<close> the header holds 0, below the
  header width.
\<close>

theorem stored_offset_counterexample:
  "is_pow2 65536 \<and> (1::size_t) \<noteq> 0 \<and> const_alloc 0x10000 (padded_request 65536 1) \<noteq> 0
   \<and> aligned_malloc False (const_alloc 0x10000) 65536 1 heap0 =
        Inr (0x20000, \<lparr>mem = store_offset (mem heap0) 0x1FFFE 0, malloc_calls = [0x10002], free_calls = []\<rparr>)
   \<and> load_offset (store_offset (mem heap0) 0x1FFFE 0) (0x20000 - PTR_OFFSET_SZ) = 0
   \<and> \<not> spec_headerWidth \<le> unat (0 :: offset_t)"
proof -
  have m: "aligned_malloc False (const_alloc 0x10000) 65536 1 heap0 =
        Inr (0x20000, \<lparr>mem = store_offset (mem heap0) 0x1FFFE 0, malloc_calls = [0x10002], free_calls = []\<rparr>)"
    by (simp add: aligned_malloc_def aligned_malloc_body_def malloc_def const_alloc_def
      hdr_size_def PTR_OFFSET_SZ_def align_up_def align_assertion_def heap0_def offset_65536)
  have l: "load_offset (store_offset (mem heap0) 0x1FFFE 0) (0x20000 - PTR_OFFSET_SZ) = 0"
    by (simp add: PTR_OFFSET_SZ_def load_store_offset)
  show ?thesis using is_pow2_65536 m l by (simp add: const_alloc_def spec_headerWidth_def)
qed

text \<open>
  C7. The claim: for every accepted alignment \<open>a\<close> and size \<open>sz\<close> the request to the
  underlying allocator is exactly \<open>size + headerReserve\<close> bytes, with
  \<open>headerReserve = headerWidth + (a - 1)\<close>; it is what the comments of \<open>aligned_malloc\<close>
  promise (extra bytes for the header and for the alignment). The code misses it at two
  inputs it accepts. At the alignment \<open>2^32\<close> the header reserve \<open>2^32 + 1\<close> becomes 1 in
  the \<open>uint32_t\<close> local, so for one byte \<open>malloc\<close> is asked for 2 bytes; the pointer returned
  and the header written lie far beyond the block. At the alignment 8 and the largest
  size the unchecked sum overflows and \<open>malloc\<close> is asked for 8 bytes; the pointer returned
  is the end of the block.
\<close>

theorem request_size_under_allocation:
  "aligned_malloc False (const_alloc 0x10000) 4294967296 1 heap0 =
        Inr (0x100000000, \<lparr>mem = store_offset (mem heap0) 0xFFFFFFFE 0, malloc_calls = [2], free_calls = []\<rparr>)
   \<and> spec_padded_size (unat (4294967296::size_t)) (unat (1::size_t)) = 4294967298
   \<and> unat (const_alloc 0x10000 2) + unat (2::size_t) \<le> unat (0xFFFFFFFE :: uintptr_t)
   \<and> aligned_malloc False (const_alloc 0x1000) 8 0xFFFFFFFFFFFFFFFF heap0 =
        Inr (0x1008, \<lparr>mem = store_offset (mem heap0) 0x1006 8, malloc_calls = [8], free_calls = []\<rparr>)
   \<and> spec_padded_size (unat (8::size_t)) (unat (0xFFFFFFFFFFFFFFFF::size_t)) = 18446744073709551624"
proof -
  have z: "(4294901760 :: offset_t) = 0" by simp
  have m: "aligned_malloc False (const_alloc 0x10000) 4294967296 1 heap0 =
        Inr (0x100000000, \<lparr>mem = store_offset (mem heap0) 0xFFFFFFFE 0, malloc_calls = [2], free_calls = []\<rparr>)"
    by (simp add: aligned_malloc_def aligned_malloc_body_def malloc_def const_alloc_def
      hdr_size_def PTR_OFFSET_SZ_def align_up_def align_assertion_def heap0_def z)
  have n: "aligned_malloc False (const_alloc 0x1000) 8 0xFFFFFFFFFFFFFFFF heap0 =
        Inr (0x1008, \<lparr>mem = store_offset (mem heap0) 0x1006 8, malloc_calls = [8], free_calls = []\<rparr>)"
    by (simp add: aligned_malloc_def aligned_malloc_body_def malloc_def const_alloc_def
      hdr_size_def PTR_OFFSET_SZ_def align_up_def align_assertion_def heap0_def)
  show ?thesis using m n
    by (simp add: spec_padded_size_def spec_headerReserve_def spec_headerWidth_def const_alloc_def)
qed

text \<open>
  C8. Tie-break: when the raw address plus the header width is already a multiple of
  the alignment, rounding up leaves it unchanged, the pointer returned is the raw
  address plus the header width, and the stored offset is exactly the header width.
\<close>

theorem already_aligned_no_padding:
  assumes "is_pow2 a" and "sz \<noteq> 0" and "alloc (padded_request a sz) = p" and "p \<noteq> 0"
    and "unat (p + PTR_OFFSET_SZ) mod unat a = 0"
  shows "align_up (p + PTR_OFFSET_SZ) a = p + PTR_OFFSET_SZ
       \<and> (\<exists>h1. aligned_malloc ndebug alloc a sz h = Inr (p + PTR_OFFSET_SZ, h1)
              \<and> load_offset (mem h1) (p + PTR_OFFSET_SZ - PTR_OFFSET_SZ) = ucast PTR_OFFSET_SZ)"
proof -
  from assms(1) obtain n where n: "n < 64" "a = 2 ^ n" by (rule is_pow2E)
  have fixed: "align_up (p + PTR_OFFSET_SZ) a = p + PTR_OFFSET_SZ"
    unfolding n(2) using n(1) assms(5) [unfolded n(2)] by (rule align_up_fixed)
  have "aligned_malloc ndebug alloc a sz h = Inr (aligned_malloc_body alloc a sz h)"
    using assms(1,2) by (rule aligned_malloc_valid)
  also have "aligned_malloc_body alloc a sz h =
      (p + PTR_OFFSET_SZ,
       h\<lparr>mem := store_offset (mem h) p (ucast PTR_OFFSET_SZ),
         malloc_calls := malloc_calls h @ [padded_request a sz]\<rparr>)"
    using assms(3,4) by (simp add: aligned_malloc_body_success fixed)
  finally show ?thesis using fixed by (simp add: load_store_offset)
qed

theorem already_aligned_no_padding_witness:
  "is_pow2 8 \<and> (100::size_t) \<noteq> 0 \<and> const_alloc 0x1006 (padded_request 8 100) = 0x1006
   \<and> (0x1006::uintptr_t) \<noteq> 0 \<and> unat (0x1006 + PTR_OFFSET_SZ) mod unat (8::size_t) = 0
   \<and> align_up (0x1006 + PTR_OFFSET_SZ) 8 = 0x1008
   \<and> (\<exists>h1. aligned_malloc False (const_alloc 0x1006) 8 100 heap0 = Inr (0x1008, h1)
          \<and> load_offset (mem h1) 0x1006 = 2)"
proof -
  have s: "(100::size_t) \<noteq> 0" by simp
  have q: "const_alloc 0x1006 (padded_request 8 100) = 0x1006" by (simp add: const_alloc_def)
  have p: "(0x1006::uintptr_t) \<noteq> 0" by simp
  have m: "unat (0x1006 + PTR_OFFSET_SZ) mod unat (8::size_t) = 0" by (simp add: PTR_OFFSET_SZ_def)
  show ?thesis
    using is_pow2_8 s q p m
      already_aligned_no_padding [where a = 8 and sz = 100 and alloc = "const_alloc 0x1006"
        and p = "0x1006" and ndebug = False and h = heap0, OF is_pow2_8 s q p m]
    by (simp add: PTR_OFFSET_SZ_def)
qed

text \<open>
  C9. The header is a 16-bit unsigned integer. For every power-of-two alignment \<open>a\<close>
  with \<open>headerWidth + (a - 1) \<le> 65535\<close> the narrowing cast of the offset is lossless: the
  stored value is the distance from the raw pointer, and \<open>aligned_free\<close>, once past its
  own assertion, passes the raw pointer to \<open>free\<close>. For the alignment \<open>2^16\<close> there is a raw address for which the
  stored offset is not the distance and \<open>free\<close> receives another address than the raw one.
\<close>

theorem offset_cast_lossless_below_65536:
  assumes "is_pow2 a" and "spec_headerReserve (unat a) \<le> 65535" and "sz \<noteq> 0"
    and "alloc (padded_request a sz) = p" and "p \<noteq> 0"
  shows "(\<exists>q h1. aligned_malloc ndebug alloc a sz h = Inr (q, h1)
            \<and> ucast (load_offset (mem h1) (q - PTR_OFFSET_SZ)) = q - p
            \<and> (ndebug' \<or> q \<noteq> 0 \<longrightarrow> aligned_free ndebug' q h1 = Inr (free p h1)))
       \<and> (\<exists>p' q' h'. p' \<noteq> 0 \<and> aligned_malloc ndebug (const_alloc p') 65536 sz h = Inr (q', h')
            \<and> q' \<noteq> 0
            \<and> ucast (load_offset (mem h') (q' - PTR_OFFSET_SZ)) \<noteq> q' - p'
            \<and> aligned_free ndebug' q' h' = Inr (free q' h') \<and> q' \<noteq> p')"
proof -
  define q where "q = align_up (p + PTR_OFFSET_SZ) a"
  define h1 where "h1 = h\<lparr>mem := store_offset (mem h) (q - PTR_OFFSET_SZ) (ucast (q - p)),
              malloc_calls := malloc_calls h @ [padded_request a sz]\<rparr>"
  have m1: "aligned_malloc ndebug alloc a sz h = Inr (q, h1)"
    using assms(1,3,4,5) by (simp add: aligned_malloc_valid aligned_malloc_body_success q_def h1_def)
  have "load_offset (mem h1) (q - PTR_OFFSET_SZ) = ucast (q - p)"
    by (simp add: h1_def load_store_offset)
  then have l: "ucast (load_offset (mem h1) (q - PTR_OFFSET_SZ)) = q - p"
    unfolding q_def using assms(1,2) by (simp add: header_lossless)
  then have "q - ucast (load_offset (mem h1) (q - PTR_OFFSET_SZ)) = p" by simp
  then have f: "ndebug' \<or> q \<noteq> 0 \<longrightarrow> aligned_free ndebug' q h1 = Inr (free p h1)"
    by (auto simp: aligned_free_def Let_def)
  define h' where "h' = h\<lparr>mem := store_offset (mem h) 0x1FFFE 0,
              malloc_calls := malloc_calls h @ [padded_request 65536 sz]\<rparr>"
  have "aligned_malloc_body (const_alloc 0x10000) 65536 sz h = (0x20000, h')"
    by (simp add: aligned_malloc_body_def malloc_def const_alloc_def
        PTR_OFFSET_SZ_def align_up_def offset_65536 h'_def padded_request_def)
  then have m: "aligned_malloc ndebug (const_alloc 0x10000) 65536 sz h = Inr (0x20000, h')"
    using assms(3) is_pow2_65536 by (simp add: aligned_malloc_valid)
  have o: "load_offset (mem h') 0x1FFFE = 0"
    by (simp add: h'_def load_store_offset)
  have t: "ucast (load_offset (mem h') (0x20000 - PTR_OFFSET_SZ)) \<noteq> (0x20000 :: uintptr_t) - 0x10000"
    by (simp add: PTR_OFFSET_SZ_def o)
  have g: "aligned_free ndebug' 0x20000 h' = Inr (free 0x20000 h')"
    by (simp add: aligned_free_def Let_def PTR_OFFSET_SZ_def o)
  have "(0x10000::uintptr_t) \<noteq> 0
      \<and> aligned_malloc ndebug (const_alloc 0x10000) 65536 sz h = Inr (0x20000, h')
      \<and> (0x20000::uintptr_t) \<noteq> 0
      \<and> ucast (load_offset (mem h') (0x20000 - PTR_OFFSET_SZ)) \<noteq> (0x20000 :: uintptr_t) - 0x10000
      \<and> aligned_free ndebug' 0x20000 h' = Inr (free 0x20000 h')
      \<and> (0x20000::uintptr_t) \<noteq> 0x10000"
    using m t g by simp
  then have "\<exists>p' q' h'. p' \<noteq> 0 \<and> aligned_malloc ndebug (const_alloc p') 65536 sz h = Inr (q', h')
            \<and> q' \<noteq> 0
            \<and> ucast (load_offset (mem h') (q' - PTR_OFFSET_SZ)) \<noteq> q' - p'
            \<and> aligned_free ndebug' q' h' = Inr (free q' h') \<and> q' \<noteq> p'"
    by blast
  with m1 l f show ?thesis by blast
qed

theorem offset_cast_lossless_below_65536_witness:
  "is_pow2 8 \<and> spec_headerReserve (unat (8::size_t)) \<le> 65535 \<and> (100::size_t) \<noteq> 0
   \<and> const_alloc 0x1001 (padded_request 8 100) = 0x1001 \<and> (0x1001::uintptr_t) \<noteq> 0
   \<and> (\<exists>q h1. aligned_malloc False (const_alloc 0x1001) 8 100 heap0 = Inr (q, h1)
          \<and> q = 0x1008
          \<and> ucast (load_offset (mem h1) (q - PTR_OFFSET_SZ)) = q - 0x1001
          \<and> aligned_free False q h1 = Inr (free 0x1001 h1))
   \<and> (\<exists>p' q' h'. p' \<noteq> 0 \<and> aligned_malloc False (const_alloc p') 65536 100 heap0 = Inr (q', h')
          \<and> q' \<noteq> 0
          \<and> ucast (load_offset (mem h') (q' - PTR_OFFSET_SZ)) \<noteq> q' - p'
          \<and> aligned_free False q' h' = Inr (free q' h') \<and> q' \<noteq> p')"
proof -
  have r: "spec_headerReserve (unat (8::size_t)) \<le> 65535"
    by (simp add: spec_headerReserve_def spec_headerWidth_def)
  have s: "(100::size_t) \<noteq> 0" by simp
  have c: "const_alloc 0x1001 (padded_request 8 100) = 0x1001" by (simp add: const_alloc_def)
  have p: "(0x1001::uintptr_t) \<noteq> 0" by simp
  have m: "fst (aligned_malloc_body (const_alloc 0x1001) 8 100 heap0) = 0x1008"
    by (simp add: aligned_malloc_body_def malloc_def const_alloc_def
      hdr_size_def PTR_OFFSET_SZ_def align_up_def)
  have e: "aligned_malloc False (const_alloc 0x1001) 8 100 heap0 = Inr (q, h1) \<Longrightarrow> q = 0x1008" for q h1
    using m by (simp add: aligned_malloc_valid is_pow2_8)
  show ?thesis
    using is_pow2_8 r s c p e
      offset_cast_lossless_below_65536 [where a = 8 and sz = 100 and ndebug = False
        and alloc = "const_alloc 0x1001" and h = heap0 and p = "0x1001" and ndebug' = False,
        OF is_pow2_8 r s c p]
    by auto
qed

text \<open>
  C10. The assertion \<open>(align & (align - 1)) == 0\<close> holds of \<open>align == 0\<close>, so it does not
  reject a zero alignment. For every size, a call with zero alignment returns null with
  the state unchanged, and so does a call with zero size that passes the assertion (or
  is built without it). The guarded block always calls \<open>malloc\<close>, with \<open>sz + 1\<close> bytes
  for a zero alignment, so the unchanged state shows the block is not reached: the
  guard \<open>if(align && size)\<close> alone keeps a zero alignment from allocating.
\<close>

theorem zero_alignment_only_stopped_by_guard:
  "align_assertion 0
   \<and> aligned_malloc ndebug alloc 0 sz h = Inr (0, h)
   \<and> (ndebug \<or> align_assertion a \<longrightarrow> aligned_malloc ndebug alloc a 0 h = Inr (0, h))
   \<and> malloc_calls (snd (aligned_malloc_body alloc a sz h)) = malloc_calls h @ [padded_request a sz]
   \<and> padded_request 0 sz = sz + 1"
proof -
  have "align_assertion 0" by (simp add: align_assertion_def)
  moreover have "aligned_malloc ndebug alloc 0 sz h = Inr (0, h)"
    by (simp add: aligned_malloc_def align_assertion_def)
  moreover have "ndebug \<or> align_assertion a \<longrightarrow> aligned_malloc ndebug alloc a 0 h = Inr (0, h)"
    by (auto simp: aligned_malloc_def)
  moreover have "malloc_calls (snd (aligned_malloc_body alloc a sz h)) = malloc_calls h @ [padded_request a sz]"
    by (cases "alloc (padded_request a sz) = 0")
       (simp_all add: aligned_malloc_body_failure aligned_malloc_body_success)
  moreover have "padded_request 0 sz = sz + 1"
    by (simp add: padded_request_def hdr_size_def PTR_OFFSET_SZ_def)
  ultimately show ?thesis by blast
qed

theorem zero_alignment_only_stopped_by_guard_witness:
  "align_assertion 0
   \<and> aligned_malloc False (const_alloc 0x1000) 0 10 heap0 = Inr (0, heap0)
   \<and> align_assertion 8 \<and> aligned_malloc False (const_alloc 0x1000) 8 0 heap0 = Inr (0, heap0)
   \<and> malloc_calls (snd (aligned_malloc_body (const_alloc 0x1000) 0 10 heap0)) = [11]"
proof -
  have a: "align_assertion 8" by (simp add: align_assertion_def)
  have r: "padded_request 0 10 = 11" by (simp add: padded_request_def hdr_size_def PTR_OFFSET_SZ_def)
  show ?thesis
    using a zero_alignment_only_stopped_by_guard [where ndebug = False and alloc = "const_alloc 0x1000"
        and sz = 10 and h = heap0 and a = 0]
      zero_alignment_only_stopped_by_guard [where ndebug = False and alloc = "const_alloc 0x1000"
        and sz = 10 and h = heap0 and a = 8]
    by (simp add: r heap0_def)
qed

end
